theory Spec2Isabelle
  imports Main "HOL-Library.Sublist" "HOL-Library.Multiset" "HOL-Library.Option_ord"
begin

section \<open>JavaScript values\<close>

text \<open>
  The server is TypeScript running on JavaScript values: request bodies are parsed JSON,
  database documents are objects, and the controllers test values for truthiness
  (\<^verbatim>\<open>!!x\<close>, \<^verbatim>\<open>!x\<close>). An object is the list of its own properties, read through
  \<open>lookup\<close> (property names are distinct in an object; \<open>lookup\<close> reads the first
  binding of a name); a \<open>Date\<close> is its time in milliseconds, an \<open>ObjectId\<close> its hex string.
  Numbers are restricted to the integers (what matters below is only whether a number is 0).
\<close>

datatype jsval =
    JUndefined
  | JNull
  | JBool bool
  | JNum int
  | JStr string
  | JDate int
  | JObjectId string
  | JArr "jsval list"
  | JObj "(string \<times> jsval) list"

type_synonym obj = "(string \<times> jsval) list"

text \<open>\<^verbatim>\<open>o.k\<close> on an object: the property, or \<open>undefined\<close> when \<open>o\<close> has no such property.\<close>

definition lookup :: "obj \<Rightarrow> string \<Rightarrow> jsval" where
  "lookup fs k = (case map_of fs k of Some v \<Rightarrow> v | None \<Rightarrow> JUndefined)"

text \<open>
  \<^verbatim>\<open>v.k\<close> on any value that is neither \<open>null\<close> nor \<open>undefined\<close>, for the property names
  the controllers read (\<open>msg\<close>, \<open>msgFrom\<close>, \<open>msgDateTime\<close>): primitives, arrays and dates have
  no such property. The source reads \<^verbatim>\<open>v.k\<close> only behind a truthiness test of \<open>v\<close>, so the
  TypeError of \<open>null.k\<close> cannot arise there.
\<close>

fun getp :: "jsval \<Rightarrow> string \<Rightarrow> jsval" where
  "getp (JObj fs) k = lookup fs k"
| "getp _ k = JUndefined"

text \<open>\<^verbatim>\<open>!!v\<close>: the falsy values are \<open>undefined\<close>, \<open>null\<close>, \<open>false\<close>, \<open>0\<close> and the empty string.\<close>

fun truthy :: "jsval \<Rightarrow> bool" where
  "truthy JUndefined = False"
| "truthy JNull = False"
| "truthy (JBool b) = b"
| "truthy (JNum n) = (n \<noteq> 0)"
| "truthy (JStr s) = (s \<noteq> [])"
| "truthy (JDate t) = True"
| "truthy (JObjectId i) = True"
| "truthy (JArr xs) = True"
| "truthy (JObj fs) = True"

text \<open>
  \<^verbatim>\<open>a === b\<close>: primitives are compared by value; objects, arrays, dates and object ids
  are compared by identity, and the two operands of the one comparison in the source come
  from different places (the database and the request), so they are never the same object.
\<close>

fun strict_eq :: "jsval \<Rightarrow> jsval \<Rightarrow> bool" where
  "strict_eq JUndefined JUndefined = True"
| "strict_eq JNull JNull = True"
| "strict_eq (JBool a) (JBool b) = (a = b)"
| "strict_eq (JNum a) (JNum b) = (a = b)"
| "strict_eq (JStr a) (JStr b) = (a = b)"
| "strict_eq _ _ = False"

text \<open>The own property names of an object, and \<^verbatim>\<open>const { k: _, ...rest } = o\<close>.\<close>

definition keys :: "obj \<Rightarrow> string set" where
  "keys fs = fst ` set fs"

definition omit :: "string \<Rightarrow> obj \<Rightarrow> obj" where
  "omit k fs = filter (\<lambda>(k', v). k' \<noteq> k) fs"

section \<open>Promises that resolve or reject\<close>

text \<open>
  An awaited call either throws an \<open>Error\<close> (kept as its \<open>message\<close>) or returns a value.
  \<open>await\<close> sequences two steps, \<open>try_catch\<close> is \<^verbatim>\<open>try { .. } catch (error) { .. }\<close>.
\<close>

datatype 'a outcome = Throws string | Returns 'a

definition await :: "'a outcome \<Rightarrow> ('a \<Rightarrow> 'b outcome) \<Rightarrow> 'b outcome" where
  "await m f = (case m of Throws e \<Rightarrow> Throws e | Returns x \<Rightarrow> f x)"

definition try_catch :: "'a outcome \<Rightarrow> (string \<Rightarrow> 'a outcome) \<Rightarrow> 'a outcome" where
  "try_catch m h = (case m of Throws e \<Rightarrow> h e | Returns x \<Rightarrow> Returns x)"

text \<open>
  \<^verbatim>\<open>UserResponse = SafeUser | { error: string }\<close> and \<^verbatim>\<open>MessageResponse\<close>: the callers
  tell the two apart with \<^verbatim>\<open>'error' in result\<close>, which is the constructor test here.
\<close>

datatype 'a response = Ok 'a | Error string

type_synonym UserResponse = "obj response"
type_synonym MessageResponse = "obj response"

section \<open>The user model (mongoose)\<close>

text \<open>
  \<^verbatim>\<open>models/users.model\<close> and the database behind it are outside the sources; the services
  are written against the four calls they make on \<open>UserModel\<close>, each of which may throw.
  A document is given by its fields (\<open>toObject\<close> and \<open>lean\<close> expose exactly these);
  a query that finds nothing returns \<open>null\<close>, here \<open>None\<close>. \<open>findOneAndUpdate\<close> is
  always called with \<^verbatim>\<open>{ new: true }\<close> and answers with the document after the update.
\<close>

record UserModel =
  create :: "obj \<Rightarrow> obj outcome"
  findOne :: "obj \<Rightarrow> obj option outcome"
  findOneAndDelete :: "obj \<Rightarrow> obj option outcome"
  findOneAndUpdate :: "obj \<Rightarrow> obj \<Rightarrow> obj option outcome"

definition toObject :: "obj \<Rightarrow> obj" where
  "toObject d = d"

section \<open>services/user.service.ts\<close>

definition saveUser :: "UserModel \<Rightarrow> obj \<Rightarrow> UserResponse outcome" where
  "saveUser M user =
     try_catch
       (await (create M user) (\<lambda>createdUser.
          let safeUser = omit ''password'' (toObject createdUser)
          in Returns (Ok safeUser)))
       (\<lambda>message. Returns (Error (''Error when saving user: '' @ message)))"

definition getUserByUsername :: "UserModel \<Rightarrow> jsval \<Rightarrow> UserResponse outcome" where
  "getUserByUsername M username =
     try_catch
       (await (findOne M [(''username'', username)]) (\<lambda>user.
          case user of
            None \<Rightarrow> Returns (Error ''User not found'')
          | Some u \<Rightarrow> let safeUser = omit ''password'' u in Returns (Ok safeUser)))
       (\<lambda>message. Returns (Error (''Error when saving user: '' @ message)))"

definition loginUser :: "UserModel \<Rightarrow> obj \<Rightarrow> UserResponse outcome" where
  "loginUser M loginCredentials =
     try_catch
       (await (findOne M [(''username'', lookup loginCredentials ''username'')]) (\<lambda>user.
          case user of
            None \<Rightarrow> Returns (Error ''User not found.'')
          | Some u \<Rightarrow>
              if \<not> strict_eq (lookup u ''password'') (lookup loginCredentials ''password'')
              then Returns (Error ''Invalid username or password.'')
              else let safeUser = omit ''password'' (toObject u) in Returns (Ok safeUser)))
       (\<lambda>message. Returns (Error (''Error logging in user saving user: '' @ message)))"

definition deleteUserByUsername :: "UserModel \<Rightarrow> jsval \<Rightarrow> UserResponse outcome" where
  "deleteUserByUsername M username =
     try_catch
       (await (findOneAndDelete M [(''username'', username)]) (\<lambda>deletedUser.
          case deletedUser of
            None \<Rightarrow> Returns (Error ''User not found.'')
          | Some u \<Rightarrow> let safeUser = omit ''password'' u in Returns (Ok safeUser)))
       (\<lambda>message. Returns (Error (''Error deleting user: '' @ message)))"

definition updateUser :: "UserModel \<Rightarrow> jsval \<Rightarrow> obj \<Rightarrow> UserResponse outcome" where
  "updateUser M username updates =
     try_catch
       (await (findOneAndUpdate M [(''username'', username)] updates) (\<lambda>updatedUser.
          case updatedUser of
            None \<Rightarrow> Returns (Error ''User not found.'')
          | Some u \<Rightarrow> let safeUser = omit ''password'' u in Returns (Ok safeUser)))
       (\<lambda>message. Returns (Error (''Error updating user: '' @ message)))"

section \<open>services/message.service.ts\<close>

text \<open>
  \<^verbatim>\<open>models/messages.model\<close> is outside the sources as well. The service makes two calls:
  \<^verbatim>\<open>MessageModel.create(message)\<close> and
  \<^verbatim>\<open>MessageModel.find().sort({ msgDateTime: 1 }).exec()\<close>; the second is \<open>find_sort\<close>
  applied to the sort field and its direction.
\<close>

record MessageModel =
  createMessage :: "jsval \<Rightarrow> obj outcome"
  find_sort :: "string \<Rightarrow> int \<Rightarrow> obj list outcome"

text \<open>
  \<^verbatim>\<open>saved.toObject ? saved.toObject() : saved\<close>: both branches are the fields of the
  saved document. \<^verbatim>\<open>(e as Error).message || 'Failed to save message'\<close> replaces an
  empty message.
\<close>

definition saveMessage :: "MessageModel \<Rightarrow> jsval \<Rightarrow> MessageResponse outcome" where
  "saveMessage M message =
     try_catch
       (await (createMessage M message) (\<lambda>saved. Returns (Ok (toObject saved))))
       (\<lambda>e. Returns (Error (if e \<noteq> [] then e else ''Failed to save message'')))"

definition getMessages :: "MessageModel \<Rightarrow> obj list outcome" where
  "getMessages M =
     try_catch
       (await (find_sort M ''msgDateTime'' 1) (\<lambda>messages. Returns (map toObject messages)))
       (\<lambda>error. Returns [])"

text \<open>
  Modelled from the spec: the message collection behind \<^verbatim>\<open>MessageModel\<close> (the model
  file and the database are not in the sources). The spec's data model orders messages
  "by msgDateTime ascending on retrieval", and for equal timestamps keeps "insertion order
  as returned by storage": a healthy collection holding \<open>ms\<close> in insertion order answers
  the ascending query with the stable sort of \<open>ms\<close> on the date in the sort field
  (a document without a date there sorts first).
\<close>

definition sort_value :: "string \<Rightarrow> obj \<Rightarrow> int option" where
  "sort_value field d = (case lookup d field of JDate t \<Rightarrow> Some t | _ \<Rightarrow> None)"

definition stored_ascending :: "obj list \<Rightarrow> string \<Rightarrow> obj list outcome" where
  "stored_ascending ms field = Returns (sort_key (sort_value field) ms)"

section \<open>What a route handler does\<close>

text \<open>
  A handler calls service functions, emits socket events and sends one response
  (\<^verbatim>\<open>res.status(n).json(body)\<close>); its run is the list of these effects in order.
  The services are the handler's imports; they are a parameter here, as they are for the
  controller tests, which replace them by spies that return or throw.
\<close>

datatype event =
    Called string "jsval list"
  | Emit string jsval
  | Respond nat jsval

definition error_body :: "string \<Rightarrow> jsval" where
  "error_body e = JObj [(''error'', JStr e)]"

record user_service =
  svc_saveUser :: "obj \<Rightarrow> UserResponse outcome"
  svc_getUserByUsername :: "jsval \<Rightarrow> UserResponse outcome"
  svc_loginUser :: "obj \<Rightarrow> UserResponse outcome"
  svc_deleteUserByUsername :: "jsval \<Rightarrow> UserResponse outcome"
  svc_updateUser :: "jsval \<Rightarrow> obj \<Rightarrow> UserResponse outcome"

definition user_service_on :: "UserModel \<Rightarrow> user_service" where
  "user_service_on M =
     \<lparr> svc_saveUser = saveUser M,
       svc_getUserByUsername = getUserByUsername M,
       svc_loginUser = loginUser M,
       svc_deleteUserByUsername = deleteUserByUsername M,
       svc_updateUser = updateUser M \<rparr>"

record message_service =
  svc_saveMessage :: "jsval \<Rightarrow> MessageResponse outcome"
  svc_getMessages :: "obj list outcome"

definition message_service_on :: "MessageModel \<Rightarrow> message_service" where
  "message_service_on M =
     \<lparr> svc_saveMessage = saveMessage M, svc_getMessages = getMessages M \<rparr>"

section \<open>controllers/user.controller.ts\<close>

text \<open>
  A handler gets the request body (an object) or the route parameter \<open>username\<close>
  (a string); \<open>createUser\<close> also reads the clock (\<^verbatim>\<open>new Date()\<close>).
\<close>

definition isUserBodyValid :: "obj \<Rightarrow> bool" where
  "isUserBodyValid body = (truthy (lookup body ''username'') \<and> truthy (lookup body ''password''))"

definition createUser :: "user_service \<Rightarrow> int \<Rightarrow> obj \<Rightarrow> event list" where
  "createUser S now body =
     (if \<not> isUserBodyValid body
      then [Respond 400 (error_body ''Username and password are required.'')]
      else
        let userToSave =
              [(''username'', lookup body ''username''),
               (''password'', lookup body ''password''),
               (''dateJoined'', JDate now)]
        in Called ''saveUser'' [JObj userToSave] #
           (case svc_saveUser S userToSave of
              Returns (Error e) \<Rightarrow> [Respond 400 (error_body e)]
            | Returns (Ok safeUser) \<Rightarrow> [Respond 201 (JObj safeUser)]
            | Throws error \<Rightarrow> [Respond 500 (error_body ''Server error.'')]))"

definition userLogin :: "user_service \<Rightarrow> obj \<Rightarrow> event list" where
  "userLogin S body =
     (let username = lookup body ''username''; password = lookup body ''password''
      in if \<not> truthy username \<or> \<not> truthy password
         then [Respond 400 (error_body ''Username and password are required.'')]
         else
           let credentials = [(''username'', username), (''password'', password)]
           in Called ''loginUser'' [JObj credentials] #
              (case svc_loginUser S credentials of
                 Returns (Error e) \<Rightarrow> [Respond 401 (error_body e)]
               | Returns (Ok safeUser) \<Rightarrow> [Respond 200 (JObj safeUser)]
               | Throws error \<Rightarrow> [Respond 500 (error_body ''Server error.'')]))"

definition getUser :: "user_service \<Rightarrow> string \<Rightarrow> event list" where
  "getUser S username =
     (if \<not> truthy (JStr username)
      then [Respond 400 (error_body ''Username parameter is required.'')]
      else Called ''getUserByUsername'' [JStr username] #
           (case svc_getUserByUsername S (JStr username) of
              Returns (Error e) \<Rightarrow> [Respond 404 (error_body e)]
            | Returns (Ok safeUser) \<Rightarrow> [Respond 200 (JObj safeUser)]
            | Throws error \<Rightarrow> [Respond 500 (error_body ''Server error.'')]))"

definition deleteUser :: "user_service \<Rightarrow> string \<Rightarrow> event list" where
  "deleteUser S username =
     (if \<not> truthy (JStr username)
      then [Respond 400 (error_body ''Username parameter is required.'')]
      else Called ''deleteUserByUsername'' [JStr username] #
           (case svc_deleteUserByUsername S (JStr username) of
              Returns (Error e) \<Rightarrow> [Respond 404 (error_body e)]
            | Returns (Ok safeUser) \<Rightarrow> [Respond 200 (JObj safeUser)]
            | Throws error \<Rightarrow> [Respond 500 (error_body ''Server error.'')]))"

definition resetPassword :: "user_service \<Rightarrow> obj \<Rightarrow> event list" where
  "resetPassword S body =
     (let username = lookup body ''username''; password = lookup body ''password''
      in if \<not> truthy username \<or> \<not> truthy password
         then [Respond 400 (error_body ''Username and new password are required.'')]
         else Called ''updateUser'' [username, JObj [(''password'', password)]] #
              (case svc_updateUser S username [(''password'', password)] of
                 Returns (Error e) \<Rightarrow> [Respond 404 (error_body e)]
               | Returns (Ok safeUser) \<Rightarrow> [Respond 200 (JObj safeUser)]
               | Throws error \<Rightarrow> [Respond 500 (error_body ''Server error.'')]))"

section \<open>controllers/message.controller.ts\<close>

definition isRequestValid :: "obj \<Rightarrow> bool" where
  "isRequestValid body =
     (let msg = lookup body ''messageToAdd''
      in truthy msg \<and> truthy (getp msg ''msg'') \<and> truthy (getp msg ''msgFrom'')
         \<and> truthy (getp msg ''msgDateTime''))"

definition isMessageValid :: "jsval \<Rightarrow> bool" where
  "isMessageValid message =
     (truthy message \<and> truthy (getp message ''msg'') \<and> truthy (getp message ''msgFrom'')
      \<and> truthy (getp message ''msgDateTime''))"

definition addMessageRoute :: "message_service \<Rightarrow> obj \<Rightarrow> event list" where
  "addMessageRoute S body =
     (if \<not> isRequestValid body
      then [Respond 400 (error_body ''Invalid message body'')]
      else
        let messageToAdd = lookup body ''messageToAdd''
        in if \<not> isMessageValid messageToAdd
           then [Respond 400 (error_body ''Invalid message object'')]
           else Called ''saveMessage'' [messageToAdd] #
                (case svc_saveMessage S messageToAdd of
                   Returns (Error e) \<Rightarrow> [Respond 500 (error_body e)]
                 | Returns (Ok msgFromDb) \<Rightarrow>
                     [Emit ''messageUpdate'' (JObj [(''msg'', JObj msgFromDb)]),
                      Respond 201 (JObj msgFromDb)]
                 | Throws error \<Rightarrow> [Respond 500 (error_body ''Failed to save message'')]))"

definition getMessagesRoute :: "message_service \<Rightarrow> event list" where
  "getMessagesRoute S =
     Called ''getMessages'' [] #
     (case svc_getMessages S of
        Returns messages \<Rightarrow> [Respond 200 (JArr (map JObj messages))]
      | Throws error \<Rightarrow> [Respond 500 (error_body ''Failed to fetch messages'')])"

section \<open>Reading a run, and the five user operations as one type\<close>

text \<open>The socket events and the responses of a run, in order.\<close>

fun emitted :: "event list \<Rightarrow> (string \<times> jsval) list" where
  "emitted [] = []"
| "emitted (Emit name payload # es) = (name, payload) # emitted es"
| "emitted (e # es) = emitted es"

fun responses :: "event list \<Rightarrow> (nat \<times> jsval) list" where
  "responses [] = []"
| "responses (Respond status body # es) = (status, body) # responses es"
| "responses (e # es) = responses es"

fun calls :: "event list \<Rightarrow> string list" where
  "calls [] = []"
| "calls (Called name args # es) = name # calls es"
| "calls (e # es) = calls es"

text \<open>
  A call of one of the five exported functions of the user service, and the single
  storage call that it makes (\<open>create\<close> never returns \<open>null\<close>).
\<close>

datatype user_operation =
    SaveUser obj
  | GetUserByUsername jsval
  | LoginUser obj
  | DeleteUserByUsername jsval
  | UpdateUser jsval obj

fun run_operation :: "UserModel \<Rightarrow> user_operation \<Rightarrow> UserResponse outcome" where
  "run_operation M (SaveUser user) = saveUser M user"
| "run_operation M (GetUserByUsername username) = getUserByUsername M username"
| "run_operation M (LoginUser loginCredentials) = loginUser M loginCredentials"
| "run_operation M (DeleteUserByUsername username) = deleteUserByUsername M username"
| "run_operation M (UpdateUser username updates) = updateUser M username updates"

fun storage_call :: "UserModel \<Rightarrow> user_operation \<Rightarrow> obj option outcome" where
  "storage_call M (SaveUser user) = await (create M user) (\<lambda>d. Returns (Some d))"
| "storage_call M (GetUserByUsername username) = findOne M [(''username'', username)]"
| "storage_call M (LoginUser loginCredentials) =
     findOne M [(''username'', lookup loginCredentials ''username'')]"
| "storage_call M (DeleteUserByUsername username) =
     findOneAndDelete M [(''username'', username)]"
| "storage_call M (UpdateUser username updates) =
     findOneAndUpdate M [(''username'', username)] updates"


section \<open>Test doubles and test data\<close>

text \<open>
  The tests replace the model by one that answers every call with a fixed result
  (\<^verbatim>\<open>mockingoose(UserModel).toReturn(..)\<close>) and the services by spies
  (\<^verbatim>\<open>mockResolvedValueOnce\<close>, or an implementation that throws).
\<close>

definition stub_UserModel :: "obj outcome \<Rightarrow> obj option outcome \<Rightarrow> UserModel" where
  "stub_UserModel created found =
     \<lparr> create = (\<lambda>user. created),
       findOne = (\<lambda>filter. found),
       findOneAndDelete = (\<lambda>filter. found),
       findOneAndUpdate = (\<lambda>filter updates. found) \<rparr>"

definition stub_MessageModel :: "obj outcome \<Rightarrow> obj list outcome \<Rightarrow> MessageModel" where
  "stub_MessageModel created found =
     \<lparr> createMessage = (\<lambda>message. created), find_sort = (\<lambda>field direction. found) \<rparr>"

definition spy_user_service :: "UserResponse outcome \<Rightarrow> user_service" where
  "spy_user_service r =
     \<lparr> svc_saveUser = (\<lambda>user. r),
       svc_getUserByUsername = (\<lambda>username. r),
       svc_loginUser = (\<lambda>credentials. r),
       svc_deleteUserByUsername = (\<lambda>username. r),
       svc_updateUser = (\<lambda>username updates. r) \<rparr>"

definition spy_message_service :: "MessageResponse outcome \<Rightarrow> message_service" where
  "spy_message_service r = \<lparr> svc_saveMessage = (\<lambda>message. r), svc_getMessages = Returns [] \<rparr>"

definition mockUser :: obj where
  "mockUser =
     [(''_id'', JObjectId ''65e9b58910afe6e94fc6e6dc''),
      (''username'', JStr ''sana''),
      (''password'', JStr ''sanaPassword''),
      (''dateJoined'', JDate 1702252800000)]"

definition mockSafeUser :: obj where
  "mockSafeUser =
     [(''_id'', JObjectId ''65e9b58910afe6e94fc6e6dc''),
      (''username'', JStr ''sana''),
      (''dateJoined'', JDate 1702252800000)]"

definition message1 :: obj where
  "message1 =
     [(''msg'', JStr ''Hello''), (''msgFrom'', JStr ''User1''),
      (''msgDateTime'', JDate 1717459200000)]"

definition message2 :: obj where
  "message2 =
     [(''msg'', JStr ''Hi''), (''msgFrom'', JStr ''User2''),
      (''msgDateTime'', JDate 1717545600000)]"

definition sameTimeFirst :: obj where
  "sameTimeFirst =
     [(''msg'', JStr ''First''), (''msgFrom'', JStr ''User1''),
      (''msgDateTime'', JDate 1717495200000)]"

definition sameTimeSecond :: obj where
  "sameTimeSecond =
     [(''msg'', JStr ''Second''), (''msgFrom'', JStr ''User2''),
      (''msgDateTime'', JDate 1717495200000)]"

definition mockReqBody :: obj where
  "mockReqBody = [(''username'', JStr ''sana''), (''password'', JStr ''sanaPassword'')]"

definition validMsg :: obj where
  "validMsg =
     [(''msg'', JStr ''Hello''), (''msgFrom'', JStr ''sana''),
      (''msgDateTime'', JStr ''2024-06-04T00:00:00.000Z'')]"

section \<open>Objects\<close>

lemma keys_omit: "keys (omit k fs) = keys fs - {k}"
  by (auto simp: keys_def omit_def image_iff)

lemma lookup_omit_same: "lookup (omit k fs) k = JUndefined"
  by (induction fs) (auto simp: lookup_def omit_def)


section \<open>The user service\<close>

lemma run_operation_Ok:
  assumes "run_operation M op = Returns (Ok safeUser)"
  shows "\<exists>d. storage_call M op = Returns (Some d) \<and> safeUser = omit ''password'' d"
  using assms
  by (cases op)
     (auto simp: saveUser_def getUserByUsername_def loginUser_def deleteUserByUsername_def
        updateUser_def try_catch_def await_def toObject_def
        split: outcome.splits option.splits if_splits)

lemma run_operation_returns: "\<exists>r. run_operation M op = Returns r"
  by (cases op)
     (auto simp: saveUser_def getUserByUsername_def loginUser_def deleteUserByUsername_def
        updateUser_def try_catch_def await_def
        split: outcome.splits option.splits)

lemma run_operation_thrown:
  "storage_call M op = Throws e \<Longrightarrow>
   run_operation M op =
     Returns (Error ((case op of
         SaveUser user \<Rightarrow> ''Error when saving user: ''
       | GetUserByUsername username \<Rightarrow> ''Error when saving user: ''
       | LoginUser loginCredentials \<Rightarrow> ''Error logging in user saving user: ''
       | DeleteUserByUsername username \<Rightarrow> ''Error deleting user: ''
       | UpdateUser username updates \<Rightarrow> ''Error updating user: '') @ e))"
  by (cases op)
     (auto simp: saveUser_def getUserByUsername_def loginUser_def deleteUserByUsername_def
        updateUser_def try_catch_def await_def
        split: outcome.splits option.splits)



text \<open>
  C2. \<open>loginUser\<close> answers "User not found." exactly when the lookup by the given
  username finds no user, and "Invalid username or password." exactly when it finds a
  user whose stored password is not (\<^verbatim>\<open>!==\<close>) the supplied one. (When the lookup itself
  throws, the answer is a third message, from the catch block.)
\<close>

theorem loginUser_messages_not_swapped:
  "(loginUser M c = Returns (Error ''User not found.'') \<longleftrightarrow>
      findOne M [(''username'', lookup c ''username'')] = Returns None) \<and>
   (loginUser M c = Returns (Error ''Invalid username or password.'') \<longleftrightarrow>
      (\<exists>u. findOne M [(''username'', lookup c ''username'')] = Returns (Some u) \<and>
           \<not> strict_eq (lookup u ''password'') (lookup c ''password'')))"
proof (cases "findOne M [(''username'', lookup c ''username'')]")
  case (Throws e)
  then have "loginUser M c = Returns (Error (''Error logging in user saving user: '' @ e))"
    by (simp add: loginUser_def try_catch_def await_def)
  with Throws show ?thesis
    by simp
next
  case (Returns user)
  show ?thesis
  proof (cases user)
    case None
    with Returns have "loginUser M c = Returns (Error ''User not found.'')"
      by (simp add: loginUser_def try_catch_def await_def)
    with Returns None show ?thesis
      by simp
  next
    case (Some u)
    show ?thesis
    proof (cases "strict_eq (lookup u ''password'') (lookup c ''password'')")
      case True
      with Returns Some have "loginUser M c = Returns (Ok (omit ''password'' u))"
        by (simp add: loginUser_def try_catch_def await_def toObject_def)
      with Returns Some True show ?thesis
        by simp
    next
      case False
      with Returns Some have "loginUser M c = Returns (Error ''Invalid username or password.'')"
        by (simp add: loginUser_def try_catch_def await_def)
      with Returns Some False show ?thesis
        by simp
    qed
  qed
qed

theorem loginUser_messages_not_swapped_witness:
  "loginUser (stub_UserModel (Returns mockUser) (Returns None))
     [(''username'', JStr ''invalid''), (''password'', JStr ''random'')]
     = Returns (Error ''User not found.'') \<and>
   loginUser (stub_UserModel (Returns mockUser) (Returns (Some mockUser)))
     [(''username'', JStr ''sana''), (''password'', JStr ''wrongPassword'')]
     = Returns (Error ''Invalid username or password.'')"
proof -
  let ?c1 = "[(''username'', JStr ''invalid''), (''password'', JStr ''random'')]"
  let ?c2 = "[(''username'', JStr ''sana''), (''password'', JStr ''wrongPassword'')]"
  let ?M1 = "stub_UserModel (Returns mockUser) (Returns None)"
  let ?M2 = "stub_UserModel (Returns mockUser) (Returns (Some mockUser))"
  have "findOne ?M1 [(''username'', lookup ?c1 ''username'')] = Returns None"
    by (simp add: stub_UserModel_def)
  then have absent: "loginUser ?M1 ?c1 = Returns (Error ''User not found.'')"
    by (simp only: loginUser_messages_not_swapped [THEN conjunct1])
  have "findOne ?M2 [(''username'', lookup ?c2 ''username'')] = Returns (Some mockUser) \<and>
        \<not> strict_eq (lookup mockUser ''password'') (lookup ?c2 ''password'')"
    by (simp add: stub_UserModel_def lookup_def mockUser_def)
  then have "\<exists>u. findOne ?M2 [(''username'', lookup ?c2 ''username'')] = Returns (Some u) \<and>
        \<not> strict_eq (lookup u ''password'') (lookup ?c2 ''password'')"
    by blast
  then have wrong: "loginUser ?M2 ?c2 = Returns (Error ''Invalid username or password.'')"
    by (simp only: loginUser_messages_not_swapped [THEN conjunct2])
  from absent wrong show ?thesis
    by (rule conjI)
qed

text \<open>
  C5. None of the five user operations throws: each returns a value, which is
  \<open>{error: message}\<close> or a user object without \<open>password\<close>; when the storage call throws,
  the exception is caught and the value is \<open>{error: prefix + message}\<close> with the prefix
  of that operation's catch block.
\<close>

theorem user_services_never_throw:
  "(\<exists>r. run_operation M op = Returns r \<and>
        ((\<exists>message. r = Error message) \<or>
         (\<exists>safeUser. r = Ok safeUser \<and> ''password'' \<notin> keys safeUser))) \<and>
   (\<forall>e. storage_call M op = Throws e \<longrightarrow>
      run_operation M op =
        Returns (Error ((case op of
            SaveUser user \<Rightarrow> ''Error when saving user: ''
          | GetUserByUsername username \<Rightarrow> ''Error when saving user: ''
          | LoginUser loginCredentials \<Rightarrow> ''Error logging in user saving user: ''
          | DeleteUserByUsername username \<Rightarrow> ''Error deleting user: ''
          | UpdateUser username updates \<Rightarrow> ''Error updating user: '') @ e)))"
proof -
  obtain r where r: "run_operation M op = Returns r"
    using run_operation_returns by blast
  have "(\<exists>message. r = Error message) \<or>
      (\<exists>safeUser. r = Ok safeUser \<and> ''password'' \<notin> keys safeUser)"
  proof (cases r)
    case (Ok safeUser)
    with r run_operation_Ok [of M op safeUser] show ?thesis
      by (auto simp: keys_omit)
  next
    case (Error message)
    then show ?thesis
      by simp
  qed
  with r show ?thesis
    using run_operation_thrown by blast
qed

theorem user_services_never_throw_witness:
  "storage_call (stub_UserModel (Throws ''DB error'') (Throws ''DB error''))
     (DeleteUserByUsername (JStr ''sana'')) = Throws ''DB error'' \<and>
   run_operation (stub_UserModel (Throws ''DB error'') (Throws ''DB error''))
     (DeleteUserByUsername (JStr ''sana'')) = Returns (Error ''Error deleting user: DB error'')"
proof -
  let ?M = "stub_UserModel (Throws ''DB error'') (Throws ''DB error'')"
  let ?op = "DeleteUserByUsername (JStr ''sana'')"
  have thrown: "storage_call ?M ?op = Throws ''DB error''"
    by (simp add: stub_UserModel_def)
  from user_services_never_throw [of ?M ?op, THEN conjunct2, rule_format, OF thrown]
  have "run_operation ?M ?op = Returns (Error ''Error deleting user: DB error'')"
    by simp
  with thrown show ?thesis
    by (rule conjI)
qed

section \<open>The message service\<close>

lemma map_toObject: "map toObject docs = docs"
  by (induction docs) (simp_all add: toObject_def)

lemma getMessages_cases:
  "getMessages M =
     (case find_sort M ''msgDateTime'' 1 of Throws e \<Rightarrow> Returns [] | Returns docs \<Rightarrow> Returns docs)"
  by (simp add: getMessages_def try_catch_def await_def map_toObject split: outcome.splits)

text \<open>
  C3. \<open>getMessages\<close> always returns a list and never an error: the empty list when the
  storage query throws, and otherwise every message the query returned, in its order.
\<close>

theorem getMessages_returns_list:
  "(\<exists>messages. getMessages M = Returns messages) \<and>
   (\<forall>e. find_sort M ''msgDateTime'' 1 = Throws e \<longrightarrow> getMessages M = Returns []) \<and>
   (\<forall>docs. find_sort M ''msgDateTime'' 1 = Returns docs \<longrightarrow>
      getMessages M = Returns (map toObject docs) \<and> map toObject docs = docs)"
proof (cases "find_sort M ''msgDateTime'' 1")
  case (Throws e)
  then have "getMessages M = Returns []"
    by (simp add: getMessages_cases)
  with Throws show ?thesis
    by simp
next
  case (Returns docs)
  then have "getMessages M = Returns docs"
    by (simp add: getMessages_cases)
  with Returns show ?thesis
    by (simp add: map_toObject)
qed

theorem getMessages_returns_list_witness:
  "find_sort (stub_MessageModel (Returns message1) (Throws ''DB error'')) ''msgDateTime'' 1
     = Throws ''DB error'' \<and>
   getMessages (stub_MessageModel (Returns message1) (Throws ''DB error'')) = Returns [] \<and>
   find_sort (stub_MessageModel (Returns message1) (Returns [message1, message2]))
     ''msgDateTime'' 1 = Returns [message1, message2] \<and>
   getMessages (stub_MessageModel (Returns message1) (Returns [message1, message2]))
     = Returns [message1, message2]"
proof -
  let ?F = "stub_MessageModel (Returns message1) (Throws ''DB error'')"
  let ?G = "stub_MessageModel (Returns message1) (Returns [message1, message2])"
  have thrown: "find_sort ?F ''msgDateTime'' 1 = Throws ''DB error''"
    by (simp add: stub_MessageModel_def)
  have found: "find_sort ?G ''msgDateTime'' 1 = Returns [message1, message2]"
    by (simp add: stub_MessageModel_def)
  note failing =
    getMessages_returns_list [of ?F, THEN conjunct2, THEN conjunct1, rule_format, OF thrown]
  note healthy =
    getMessages_returns_list [of ?G, THEN conjunct2, THEN conjunct2, rule_format, OF found]
  from healthy have "getMessages ?G = Returns [message1, message2]"
    by simp
  with thrown failing found show ?thesis
    by blast
qed

text \<open>
  C4. Over a collection that answers the ascending query as the spec describes, the list
  \<open>getMessages\<close> returns holds exactly the stored messages, in non-decreasing order of
  \<open>msgDateTime\<close>, and messages with the same \<open>msgDateTime\<close> keep their insertion order.
\<close>

theorem getMessages_sorted_stable:
  assumes "find_sort M ''msgDateTime'' 1 = stored_ascending ms ''msgDateTime''"
  shows "\<exists>out. getMessages M = Returns out \<and>
           sorted (map (sort_value ''msgDateTime'') out) \<and>
           mset out = mset ms \<and>
           (\<forall>t. filter (\<lambda>m. sort_value ''msgDateTime'' m = t) out =
                filter (\<lambda>m. sort_value ''msgDateTime'' m = t) ms)"
proof -
  let ?out = "sort_key (sort_value ''msgDateTime'') ms"
  have "getMessages M = Returns ?out"
    using assms by (simp add: getMessages_cases stored_ascending_def)
  moreover have "sorted (map (sort_value ''msgDateTime'') ?out)"
    by (rule sorted_sort_key)
  moreover have "mset ?out = mset ms"
    by (rule mset_sort)
  moreover have "filter (\<lambda>m. sort_value ''msgDateTime'' m = t) ?out =
      filter (\<lambda>m. sort_value ''msgDateTime'' m = t) ms" for t
    by (rule sort_key_stable)
  ultimately show ?thesis
    by blast
qed

theorem getMessages_sorted_stable_witness:
  "find_sort
     (stub_MessageModel (Returns message1)
        (stored_ascending [message2, sameTimeFirst, sameTimeSecond, message1] ''msgDateTime''))
     ''msgDateTime'' 1
     = stored_ascending [message2, sameTimeFirst, sameTimeSecond, message1] ''msgDateTime'' \<and>
   getMessages
     (stub_MessageModel (Returns message1)
        (stored_ascending [message2, sameTimeFirst, sameTimeSecond, message1] ''msgDateTime''))
     = Returns [message1, sameTimeFirst, sameTimeSecond, message2] \<and>
   sorted (map (sort_value ''msgDateTime'')
     [message1, sameTimeFirst, sameTimeSecond, message2]) \<and>
   filter (\<lambda>m. sort_value ''msgDateTime'' m = Some 1717495200000)
     [message1, sameTimeFirst, sameTimeSecond, message2] = [sameTimeFirst, sameTimeSecond]"
proof -
  let ?ms = "[message2, sameTimeFirst, sameTimeSecond, message1]"
  let ?M = "stub_MessageModel (Returns message1) (stored_ascending ?ms ''msgDateTime'')"
  let ?key = "sort_value ''msgDateTime''"
  have key [simp]:
    "?key message1 = Some 1717459200000" "?key message2 = Some 1717545600000"
    "?key sameTimeFirst = Some 1717495200000" "?key sameTimeSecond = Some 1717495200000"
    by (simp_all add: sort_value_def lookup_def message1_def message2_def
        sameTimeFirst_def sameTimeSecond_def)
  have query: "find_sort ?M ''msgDateTime'' 1 = stored_ascending ?ms ''msgDateTime''"
    by (simp add: stub_MessageModel_def)
  have run: "getMessages ?M = Returns [message1, sameTimeFirst, sameTimeSecond, message2]"
    by (simp add: getMessages_cases stub_MessageModel_def stored_ascending_def)
  from getMessages_sorted_stable [OF query] obtain out
    where out: "getMessages ?M = Returns out" "sorted (map ?key out)"
      "\<forall>t. filter (\<lambda>m. ?key m = t) out = filter (\<lambda>m. ?key m = t) ?ms"
    by blast
  from out(1) run have eq: "out = [message1, sameTimeFirst, sameTimeSecond, message2]"
    by simp
  from out(2) eq
  have ordered: "sorted (map ?key [message1, sameTimeFirst, sameTimeSecond, message2])"
    by (simp only:)
  from out(3) eq
  have "filter (\<lambda>m. ?key m = Some 1717495200000)
          [message1, sameTimeFirst, sameTimeSecond, message2] =
        filter (\<lambda>m. ?key m = Some 1717495200000) ?ms"
    by (simp only:)
  then have stable: "filter (\<lambda>m. ?key m = Some 1717495200000)
      [message1, sameTimeFirst, sameTimeSecond, message2] = [sameTimeFirst, sameTimeSecond]"
    by simp
  from query run ordered stable show ?thesis
    by blast
qed

section \<open>The user controller\<close>

text \<open>The run of each handler on a request that passes its validation.\<close>

lemma createUser_valid:
  "isUserBodyValid body \<Longrightarrow>
   createUser S now body =
     Called ''saveUser''
       [JObj [(''username'', lookup body ''username''), (''password'', lookup body ''password''),
              (''dateJoined'', JDate now)]] #
     (case svc_saveUser S
        [(''username'', lookup body ''username''), (''password'', lookup body ''password''),
         (''dateJoined'', JDate now)] of
        Returns (Error e) \<Rightarrow> [Respond 400 (error_body e)]
      | Returns (Ok safeUser) \<Rightarrow> [Respond 201 (JObj safeUser)]
      | Throws error \<Rightarrow> [Respond 500 (error_body ''Server error.'')])"
  by (simp add: createUser_def Let_def)

lemma userLogin_valid:
  "isUserBodyValid body \<Longrightarrow>
   userLogin S body =
     Called ''loginUser''
       [JObj [(''username'', lookup body ''username''), (''password'', lookup body ''password'')]] #
     (case svc_loginUser S
        [(''username'', lookup body ''username''), (''password'', lookup body ''password'')] of
        Returns (Error e) \<Rightarrow> [Respond 401 (error_body e)]
      | Returns (Ok safeUser) \<Rightarrow> [Respond 200 (JObj safeUser)]
      | Throws error \<Rightarrow> [Respond 500 (error_body ''Server error.'')])"
  by (simp add: userLogin_def isUserBodyValid_def Let_def)

lemma getUser_valid:
  "username \<noteq> [] \<Longrightarrow>
   getUser S username =
     Called ''getUserByUsername'' [JStr username] #
     (case svc_getUserByUsername S (JStr username) of
        Returns (Error e) \<Rightarrow> [Respond 404 (error_body e)]
      | Returns (Ok safeUser) \<Rightarrow> [Respond 200 (JObj safeUser)]
      | Throws error \<Rightarrow> [Respond 500 (error_body ''Server error.'')])"
  by (simp add: getUser_def)

lemma deleteUser_valid:
  "username \<noteq> [] \<Longrightarrow>
   deleteUser S username =
     Called ''deleteUserByUsername'' [JStr username] #
     (case svc_deleteUserByUsername S (JStr username) of
        Returns (Error e) \<Rightarrow> [Respond 404 (error_body e)]
      | Returns (Ok safeUser) \<Rightarrow> [Respond 200 (JObj safeUser)]
      | Throws error \<Rightarrow> [Respond 500 (error_body ''Server error.'')])"
  by (simp add: deleteUser_def)

lemma resetPassword_valid:
  "isUserBodyValid body \<Longrightarrow>
   resetPassword S body =
     Called ''updateUser''
       [lookup body ''username'', JObj [(''password'', lookup body ''password'')]] #
     (case svc_updateUser S (lookup body ''username'') [(''password'', lookup body ''password'')] of
        Returns (Error e) \<Rightarrow> [Respond 404 (error_body e)]
      | Returns (Ok safeUser) \<Rightarrow> [Respond 200 (JObj safeUser)]
      | Throws error \<Rightarrow> [Respond 500 (error_body ''Server error.'')])"
  by (simp add: resetPassword_def isUserBodyValid_def Let_def)

lemmas user_handlers_valid =
  createUser_valid userLogin_valid getUser_valid deleteUser_valid resetPassword_valid

lemma isUserBodyValid_mockReqBody: "isUserBodyValid mockReqBody"
  by (simp add: isUserBodyValid_def lookup_def mockReqBody_def)

lemma getUserByUsername_absent:
  "findOne M [(''username'', username)] = Returns None \<Longrightarrow>
   getUserByUsername M username = Returns (Error ''User not found'')"
  by (simp add: getUserByUsername_def try_catch_def await_def)

lemma deleteUserByUsername_absent:
  "findOneAndDelete M [(''username'', username)] = Returns None \<Longrightarrow>
   deleteUserByUsername M username = Returns (Error ''User not found.'')"
  by (simp add: deleteUserByUsername_def try_catch_def await_def)

text \<open>
  C6. On a request that reaches the service: an error result gives 404 for get-user,
  delete-user and reset-password and 401 for login, with the service's message as the body;
  fetching or deleting a username the database does not have gives 404 with a message
  that contains "User not found"; a service function that throws gives 500 with the body
  \<open>{error: "Server error."}\<close>; a success gives 200, and 201 for signup.
\<close>

theorem user_controller_statuses:
  "(isUserBodyValid body \<and>
      svc_loginUser S
        [(''username'', lookup body ''username''), (''password'', lookup body ''password'')]
        = Returns (Error e) \<longrightarrow>
      responses (userLogin S body) = [(401, error_body e)]) \<and>
   (name \<noteq> [] \<and> svc_getUserByUsername S (JStr name) = Returns (Error e) \<longrightarrow>
      responses (getUser S name) = [(404, error_body e)]) \<and>
   (name \<noteq> [] \<and> svc_deleteUserByUsername S (JStr name) = Returns (Error e) \<longrightarrow>
      responses (deleteUser S name) = [(404, error_body e)]) \<and>
   (isUserBodyValid body \<and>
      svc_updateUser S (lookup body ''username'') [(''password'', lookup body ''password'')]
        = Returns (Error e) \<longrightarrow>
      responses (resetPassword S body) = [(404, error_body e)]) \<and>
   (name \<noteq> [] \<and> findOne M [(''username'', JStr name)] = Returns None \<longrightarrow>
      (\<exists>m. responses (getUser (user_service_on M) name) = [(404, error_body m)] \<and>
           sublist ''User not found'' m)) \<and>
   (name \<noteq> [] \<and> findOneAndDelete M [(''username'', JStr name)] = Returns None \<longrightarrow>
      (\<exists>m. responses (deleteUser (user_service_on M) name) = [(404, error_body m)] \<and>
           sublist ''User not found'' m)) \<and>
   (isUserBodyValid body \<and>
      svc_saveUser S
        [(''username'', lookup body ''username''), (''password'', lookup body ''password''),
         (''dateJoined'', JDate now)] = Throws x \<longrightarrow>
      responses (createUser S now body) = [(500, error_body ''Server error.'')]) \<and>
   (isUserBodyValid body \<and>
      svc_loginUser S
        [(''username'', lookup body ''username''), (''password'', lookup body ''password'')]
        = Throws x \<longrightarrow>
      responses (userLogin S body) = [(500, error_body ''Server error.'')]) \<and>
   (name \<noteq> [] \<and> svc_getUserByUsername S (JStr name) = Throws x \<longrightarrow>
      responses (getUser S name) = [(500, error_body ''Server error.'')]) \<and>
   (name \<noteq> [] \<and> svc_deleteUserByUsername S (JStr name) = Throws x \<longrightarrow>
      responses (deleteUser S name) = [(500, error_body ''Server error.'')]) \<and>
   (isUserBodyValid body \<and>
      svc_updateUser S (lookup body ''username'') [(''password'', lookup body ''password'')]
        = Throws x \<longrightarrow>
      responses (resetPassword S body) = [(500, error_body ''Server error.'')]) \<and>
   (isUserBodyValid body \<and>
      svc_saveUser S
        [(''username'', lookup body ''username''), (''password'', lookup body ''password''),
         (''dateJoined'', JDate now)] = Returns (Ok u) \<longrightarrow>
      responses (createUser S now body) = [(201, JObj u)]) \<and>
   (isUserBodyValid body \<and>
      svc_loginUser S
        [(''username'', lookup body ''username''), (''password'', lookup body ''password'')]
        = Returns (Ok u) \<longrightarrow>
      responses (userLogin S body) = [(200, JObj u)]) \<and>
   (name \<noteq> [] \<and> svc_getUserByUsername S (JStr name) = Returns (Ok u) \<longrightarrow>
      responses (getUser S name) = [(200, JObj u)]) \<and>
   (name \<noteq> [] \<and> svc_deleteUserByUsername S (JStr name) = Returns (Ok u) \<longrightarrow>
      responses (deleteUser S name) = [(200, JObj u)]) \<and>
   (isUserBodyValid body \<and>
      svc_updateUser S (lookup body ''username'') [(''password'', lookup body ''password'')]
        = Returns (Ok u) \<longrightarrow>
      responses (resetPassword S body) = [(200, JObj u)])"
proof -
  have absent_get: "\<exists>m. responses (getUser (user_service_on M) name) = [(404, error_body m)] \<and>
      sublist ''User not found'' m"
    if "name \<noteq> []" "findOne M [(''username'', JStr name)] = Returns None"
  proof -
    have "responses (getUser (user_service_on M) name) = [(404, error_body ''User not found'')]"
      using that by (simp add: getUser_valid user_service_on_def getUserByUsername_absent)
    then show ?thesis
      by blast
  qed
  have absent_delete:
    "\<exists>m. responses (deleteUser (user_service_on M) name) = [(404, error_body m)] \<and>
      sublist ''User not found'' m"
    if "name \<noteq> []" "findOneAndDelete M [(''username'', JStr name)] = Returns None"
  proof -
    have "responses (deleteUser (user_service_on M) name)
        = [(404, error_body ''User not found.'')]"
      using that by (simp add: deleteUser_valid user_service_on_def deleteUserByUsername_absent)
    moreover have "sublist ''User not found'' ''User not found.''"
      by (simp add: prefix_imp_sublist)
    ultimately show ?thesis
      by blast
  qed
  show ?thesis
    using absent_get absent_delete by (simp add: user_handlers_valid)
qed

theorem user_controller_statuses_witness:
  "isUserBodyValid mockReqBody \<and>
   responses (userLogin (spy_user_service (Returns (Error ''Invalid username or password'')))
     mockReqBody) = [(401, error_body ''Invalid username or password'')] \<and>
   responses (getUser (spy_user_service (Returns (Error ''User not found''))) ''sana'')
     = [(404, error_body ''User not found'')] \<and>
   responses (deleteUser (spy_user_service (Returns (Error ''User not found''))) ''sana'')
     = [(404, error_body ''User not found'')] \<and>
   responses (resetPassword (spy_user_service (Returns (Error ''User not found''))) mockReqBody)
     = [(404, error_body ''User not found'')] \<and>
   (\<exists>m. responses
          (getUser (user_service_on (stub_UserModel (Returns mockUser) (Returns None))) ''sana'')
          = [(404, error_body m)] \<and> sublist ''User not found'' m) \<and>
   (\<exists>m. responses
          (deleteUser (user_service_on (stub_UserModel (Returns mockUser) (Returns None))) ''sana'')
          = [(404, error_body m)] \<and> sublist ''User not found'' m) \<and>
   responses (createUser (spy_user_service (Throws ''Unexpected error'')) 0 mockReqBody)
     = [(500, error_body ''Server error.'')] \<and>
   responses (userLogin (spy_user_service (Throws ''Unexpected error'')) mockReqBody)
     = [(500, error_body ''Server error.'')] \<and>
   responses (getUser (spy_user_service (Throws ''Unexpected error'')) ''sana'')
     = [(500, error_body ''Server error.'')] \<and>
   responses (deleteUser (spy_user_service (Throws ''Unexpected error'')) ''sana'')
     = [(500, error_body ''Server error.'')] \<and>
   responses (resetPassword (spy_user_service (Throws ''Unexpected error'')) mockReqBody)
     = [(500, error_body ''Server error.'')] \<and>
   responses (createUser (spy_user_service (Returns (Ok mockSafeUser))) 0 mockReqBody)
     = [(201, JObj mockSafeUser)] \<and>
   responses (userLogin (spy_user_service (Returns (Ok mockSafeUser))) mockReqBody)
     = [(200, JObj mockSafeUser)] \<and>
   responses (getUser (spy_user_service (Returns (Ok mockSafeUser))) ''sana'')
     = [(200, JObj mockSafeUser)] \<and>
   responses (deleteUser (spy_user_service (Returns (Ok mockSafeUser))) ''sana'')
     = [(200, JObj mockSafeUser)] \<and>
   responses (resetPassword (spy_user_service (Returns (Ok mockSafeUser))) mockReqBody)
     = [(200, JObj mockSafeUser)]"
proof -
  let ?M = "stub_UserModel (Returns mockUser) (Returns None)"
  note valid = isUserBodyValid_mockReqBody
  have name: "''sana'' \<noteq> []"
    by simp
  have spy:
    "svc_saveUser (spy_user_service r) user = r"
    "svc_getUserByUsername (spy_user_service r) username = r"
    "svc_loginUser (spy_user_service r) user = r"
    "svc_deleteUserByUsername (spy_user_service r) username = r"
    "svc_updateUser (spy_user_service r) username user = r"
    for r user username
    by (simp_all add: spy_user_service_def)
  have absent:
    "findOne ?M [(''username'', JStr ''sana'')] = Returns None"
    "findOneAndDelete ?M [(''username'', JStr ''sana'')] = Returns None"
    by (simp_all add: stub_UserModel_def)
  note login_error =
    user_controller_statuses
      [where body = mockReqBody and name = "''sana''" and M = ?M
        and S = "spy_user_service (Returns (Error ''Invalid username or password''))"
        and e = "''Invalid username or password''"]
  note not_found =
    user_controller_statuses
      [where body = mockReqBody and name = "''sana''" and M = ?M
        and S = "spy_user_service (Returns (Error ''User not found''))"
        and e = "''User not found''"]
  note thrown =
    user_controller_statuses
      [where body = mockReqBody and name = "''sana''" and M = ?M and now = 0
        and S = "spy_user_service (Throws ''Unexpected error'')"
        and x = "''Unexpected error''"]
  note success =
    user_controller_statuses
      [where body = mockReqBody and name = "''sana''" and M = ?M and now = 0
        and S = "spy_user_service (Returns (Ok mockSafeUser))" and u = mockSafeUser]
  have errors:
    "responses (userLogin (spy_user_service (Returns (Error ''Invalid username or password'')))
       mockReqBody) = [(401, error_body ''Invalid username or password'')]"
    "responses (getUser (spy_user_service (Returns (Error ''User not found''))) ''sana'')
       = [(404, error_body ''User not found'')]"
    "responses (deleteUser (spy_user_service (Returns (Error ''User not found''))) ''sana'')
       = [(404, error_body ''User not found'')]"
    "responses (resetPassword (spy_user_service (Returns (Error ''User not found''))) mockReqBody)
       = [(404, error_body ''User not found'')]"
    using login_error not_found valid name by (simp_all add: spy)
  have missing:
    "\<exists>m. responses (getUser (user_service_on ?M) ''sana'') = [(404, error_body m)] \<and>
         sublist ''User not found'' m"
    "\<exists>m. responses (deleteUser (user_service_on ?M) ''sana'') = [(404, error_body m)] \<and>
         sublist ''User not found'' m"
    using not_found name by (simp_all add: absent)
  have failures:
    "responses (createUser (spy_user_service (Throws ''Unexpected error'')) 0 mockReqBody)
       = [(500, error_body ''Server error.'')]"
    "responses (userLogin (spy_user_service (Throws ''Unexpected error'')) mockReqBody)
       = [(500, error_body ''Server error.'')]"
    "responses (getUser (spy_user_service (Throws ''Unexpected error'')) ''sana'')
       = [(500, error_body ''Server error.'')]"
    "responses (deleteUser (spy_user_service (Throws ''Unexpected error'')) ''sana'')
       = [(500, error_body ''Server error.'')]"
    "responses (resetPassword (spy_user_service (Throws ''Unexpected error'')) mockReqBody)
       = [(500, error_body ''Server error.'')]"
    using thrown valid name by (simp_all add: spy)
  have successes:
    "responses (createUser (spy_user_service (Returns (Ok mockSafeUser))) 0 mockReqBody)
       = [(201, JObj mockSafeUser)]"
    "responses (userLogin (spy_user_service (Returns (Ok mockSafeUser))) mockReqBody)
       = [(200, JObj mockSafeUser)]"
    "responses (getUser (spy_user_service (Returns (Ok mockSafeUser))) ''sana'')
       = [(200, JObj mockSafeUser)]"
    "responses (deleteUser (spy_user_service (Returns (Ok mockSafeUser))) ''sana'')
       = [(200, JObj mockSafeUser)]"
    "responses (resetPassword (spy_user_service (Returns (Ok mockSafeUser))) mockReqBody)
       = [(200, JObj mockSafeUser)]"
    using success valid name by (simp_all add: spy)
  from valid errors missing failures successes show ?thesis
    by (intro conjI)
qed

section \<open>The message controller\<close>

lemma addMessageRoute_invalid:
  "\<not> isRequestValid body \<Longrightarrow>
   addMessageRoute S body = [Respond 400 (error_body ''Invalid message body'')]"
  by (simp add: addMessageRoute_def)

lemma isMessageValid_iff: "isMessageValid (lookup body ''messageToAdd'') = isRequestValid body"
  by (simp add: isMessageValid_def isRequestValid_def Let_def)

lemma addMessageRoute_valid:
  "isRequestValid body \<Longrightarrow>
   addMessageRoute S body =
     Called ''saveMessage'' [lookup body ''messageToAdd''] #
     (case svc_saveMessage S (lookup body ''messageToAdd'') of
        Returns (Error e) \<Rightarrow> [Respond 500 (error_body e)]
      | Returns (Ok msgFromDb) \<Rightarrow>
          [Emit ''messageUpdate'' (JObj [(''msg'', JObj msgFromDb)]),
           Respond 201 (JObj msgFromDb)]
      | Throws error \<Rightarrow> [Respond 500 (error_body ''Failed to save message'')])"
  by (simp add: addMessageRoute_def isMessageValid_iff Let_def)

lemma saveMessage_created:
  "createMessage M message = Returns d \<Longrightarrow> saveMessage M message = Returns (Ok d)"
  by (simp add: saveMessage_def try_catch_def await_def toObject_def)

text \<open>
  C7. A valid add-message request whose save succeeds runs in this order: the call of
  \<open>saveMessage\<close>, one \<open>messageUpdate\<close> event with payload \<open>{msg: saved message}\<close>, the
  201 response. This holds for any service and in particular for the real one once the
  model's \<open>create\<close> has returned. No event is emitted when the request is invalid, when the
  save returns an error, or when it throws.
\<close>

theorem messageUpdate_emitted_once:
  "(isRequestValid body \<and> svc_saveMessage S (lookup body ''messageToAdd'') = Returns (Ok saved) \<longrightarrow>
      addMessageRoute S body =
        [Called ''saveMessage'' [lookup body ''messageToAdd''],
         Emit ''messageUpdate'' (JObj [(''msg'', JObj saved)]),
         Respond 201 (JObj saved)]) \<and>
   (isRequestValid body \<and> createMessage M (lookup body ''messageToAdd'') = Returns saved \<longrightarrow>
      addMessageRoute (message_service_on M) body =
        [Called ''saveMessage'' [lookup body ''messageToAdd''],
         Emit ''messageUpdate'' (JObj [(''msg'', JObj saved)]),
         Respond 201 (JObj saved)]) \<and>
   (\<not> isRequestValid body \<longrightarrow> emitted (addMessageRoute S body) = []) \<and>
   (svc_saveMessage S (lookup body ''messageToAdd'') = Returns (Error e) \<longrightarrow>
      emitted (addMessageRoute S body) = []) \<and>
   (svc_saveMessage S (lookup body ''messageToAdd'') = Throws x \<longrightarrow>
      emitted (addMessageRoute S body) = [])"
proof -
  have "emitted (addMessageRoute S body) = []"
    if "svc_saveMessage S (lookup body ''messageToAdd'') = Returns (Error e)" for e
    using that by (cases "isRequestValid body")
      (simp_all add: addMessageRoute_valid addMessageRoute_invalid)
  moreover have "emitted (addMessageRoute S body) = []"
    if "svc_saveMessage S (lookup body ''messageToAdd'') = Throws x" for x
    using that by (cases "isRequestValid body")
      (simp_all add: addMessageRoute_valid addMessageRoute_invalid)
  ultimately show ?thesis
    by (simp add: addMessageRoute_valid addMessageRoute_invalid message_service_on_def
        saveMessage_created)
qed

lemma isRequestValid_validMsg: "isRequestValid [(''messageToAdd'', JObj validMsg)]"
  by (simp add: isRequestValid_def lookup_def validMsg_def)

theorem messageUpdate_emitted_once_witness:
  "isRequestValid [(''messageToAdd'', JObj validMsg)] \<and>
   addMessageRoute (spy_message_service (Returns (Ok message1)))
     [(''messageToAdd'', JObj validMsg)] =
     [Called ''saveMessage'' [JObj validMsg],
      Emit ''messageUpdate'' (JObj [(''msg'', JObj message1)]),
      Respond 201 (JObj message1)] \<and>
   addMessageRoute (message_service_on (stub_MessageModel (Returns message1) (Returns [])))
     [(''messageToAdd'', JObj validMsg)] =
     [Called ''saveMessage'' [JObj validMsg],
      Emit ''messageUpdate'' (JObj [(''msg'', JObj message1)]),
      Respond 201 (JObj message1)] \<and>
   \<not> isRequestValid [] \<and>
   emitted (addMessageRoute (spy_message_service (Returns (Ok message1))) []) = [] \<and>
   emitted (addMessageRoute (spy_message_service (Returns (Error ''DB error'')))
     [(''messageToAdd'', JObj validMsg)]) = [] \<and>
   emitted (addMessageRoute (spy_message_service (Throws ''DB error''))
     [(''messageToAdd'', JObj validMsg)]) = []"
proof -
  let ?body = "[(''messageToAdd'', JObj validMsg)]"
  let ?M = "stub_MessageModel (Returns message1) (Returns [])"
  note valid = isRequestValid_validMsg
  have invalid: "\<not> isRequestValid []"
    by (simp add: isRequestValid_def lookup_def)
  have arg [simp]: "lookup ?body ''messageToAdd'' = JObj validMsg"
    by (simp add: lookup_def)
  have spy [simp]: "svc_saveMessage (spy_message_service r) message = r" for r message
    by (simp add: spy_message_service_def)
  have created [simp]: "createMessage ?M message = Returns message1" for message
    by (simp add: stub_MessageModel_def)
  note saved =
    messageUpdate_emitted_once
      [where body = ?body and S = "spy_message_service (Returns (Ok message1))" and M = ?M
        and saved = message1]
  note rejected =
    messageUpdate_emitted_once
      [where body = "[]" and S = "spy_message_service (Returns (Ok message1))"]
  note failed =
    messageUpdate_emitted_once
      [where body = ?body and S = "spy_message_service (Returns (Error ''DB error''))"
        and e = "''DB error''"]
  note thrown =
    messageUpdate_emitted_once
      [where body = ?body and S = "spy_message_service (Throws ''DB error'')"
        and x = "''DB error''"]
  have runs:
    "addMessageRoute (spy_message_service (Returns (Ok message1))) ?body =
       [Called ''saveMessage'' [JObj validMsg],
        Emit ''messageUpdate'' (JObj [(''msg'', JObj message1)]),
        Respond 201 (JObj message1)]"
    "addMessageRoute (message_service_on ?M) ?body =
       [Called ''saveMessage'' [JObj validMsg],
        Emit ''messageUpdate'' (JObj [(''msg'', JObj message1)]),
        Respond 201 (JObj message1)]"
    using saved valid by simp_all
  have silent:
    "emitted (addMessageRoute (spy_message_service (Returns (Ok message1))) []) = []"
    "emitted (addMessageRoute (spy_message_service (Returns (Error ''DB error''))) ?body) = []"
    "emitted (addMessageRoute (spy_message_service (Throws ''DB error'')) ?body) = []"
    using rejected failed thrown invalid by simp_all
  from valid runs invalid silent show ?thesis
    by (intro conjI)
qed

text \<open>
  C8. When \<open>messageToAdd\<close> is missing from the body, or one of \<open>msg\<close>, \<open>msgFrom\<close>,
  \<open>msgDateTime\<close> is missing from it, the whole run is the response 400 with the body
  \<open>{error: "Invalid message body"}\<close>: no service function is called.
\<close>

theorem invalid_message_body_rejected:
  assumes "lookup body ''messageToAdd'' = JUndefined \<or>
           getp (lookup body ''messageToAdd'') ''msg'' = JUndefined \<or>
           getp (lookup body ''messageToAdd'') ''msgFrom'' = JUndefined \<or>
           getp (lookup body ''messageToAdd'') ''msgDateTime'' = JUndefined"
  shows "addMessageRoute S body = [Respond 400 (error_body ''Invalid message body'')] \<and>
         calls (addMessageRoute S body) = []"
proof -
  from assms have "\<not> isRequestValid body"
    by (auto simp: isRequestValid_def Let_def)
  then show ?thesis
    by (simp add: addMessageRoute_invalid)
qed


theorem invalid_message_body_rejected_witness:
  "lookup [] ''messageToAdd'' = JUndefined \<and>
   addMessageRoute (spy_message_service (Returns (Ok message1))) []
     = [Respond 400 (error_body ''Invalid message body'')] \<and>
   calls (addMessageRoute (spy_message_service (Returns (Ok message1))) []) = [] \<and>
   getp (lookup [(''messageToAdd'',
        JObj [(''msgFrom'', JStr ''User1''), (''msgDateTime'', JStr ''2024-06-04T00:00:00.000Z'')])]
      ''messageToAdd'') ''msg'' = JUndefined \<and>
   addMessageRoute (spy_message_service (Returns (Ok message1)))
     [(''messageToAdd'',
        JObj [(''msgFrom'', JStr ''User1''), (''msgDateTime'', JStr ''2024-06-04T00:00:00.000Z'')])]
     = [Respond 400 (error_body ''Invalid message body'')]"
proof -
  let ?S = "spy_message_service (Returns (Ok message1))"
  let ?body = "[(''messageToAdd'',
        JObj [(''msgFrom'', JStr ''User1''), (''msgDateTime'', JStr ''2024-06-04T00:00:00.000Z'')])]"
  have none: "lookup [] ''messageToAdd'' = JUndefined"
    by (simp add: lookup_def)
  have no_msg: "getp (lookup ?body ''messageToAdd'') ''msg'' = JUndefined"
    by (simp add: lookup_def)
  note first = invalid_message_body_rejected [of "[]" ?S, OF disjI1, OF none]
  note second = invalid_message_body_rejected [of ?body ?S, OF disjI2, OF disjI1, OF no_msg]
  from none first no_msg second show ?thesis
    by blast
qed

section \<open>Storage failures and empty fields at the controllers\<close>

lemma createUser_invalid:
  "\<not> isUserBodyValid body \<Longrightarrow>
   createUser S now body = [Respond 400 (error_body ''Username and password are required.'')]"
  by (simp add: createUser_def)

lemma userLogin_invalid:
  "\<not> isUserBodyValid body \<Longrightarrow>
   userLogin S body = [Respond 400 (error_body ''Username and password are required.'')]"
  by (auto simp: userLogin_def isUserBodyValid_def Let_def)

lemma resetPassword_invalid:
  "\<not> isUserBodyValid body \<Longrightarrow>
   resetPassword S body = [Respond 400 (error_body ''Username and new password are required.'')]"
  by (auto simp: resetPassword_def isUserBodyValid_def Let_def)

lemma getUser_invalid:
  "getUser S [] = [Respond 400 (error_body ''Username parameter is required.'')]"
  by (simp add: getUser_def)

lemma deleteUser_invalid:
  "deleteUser S [] = [Respond 400 (error_body ''Username parameter is required.'')]"
  by (simp add: deleteUser_def)

lemma services_caught:
  "findOne M [(''username'', lookup c ''username'')] = Throws e \<Longrightarrow>
     loginUser M c = Returns (Error (''Error logging in user saving user: '' @ e))"
  "findOne M [(''username'', username)] = Throws e \<Longrightarrow>
     getUserByUsername M username = Returns (Error (''Error when saving user: '' @ e))"
  "findOneAndDelete M [(''username'', username)] = Throws e \<Longrightarrow>
     deleteUserByUsername M username = Returns (Error (''Error deleting user: '' @ e))"
  "findOneAndUpdate M [(''username'', username)] updates = Throws e \<Longrightarrow>
     updateUser M username updates = Returns (Error (''Error updating user: '' @ e))"
  by (simp_all add: loginUser_def getUserByUsername_def deleteUserByUsername_def updateUser_def
      try_catch_def await_def)

lemma services_return:
  "saveUser M user \<noteq> Throws x"
  "loginUser M c \<noteq> Throws x"
  "getUserByUsername M username \<noteq> Throws x"
  "deleteUserByUsername M username \<noteq> Throws x"
  "updateUser M username updates \<noteq> Throws x"
  by (simp_all add: saveUser_def loginUser_def getUserByUsername_def deleteUserByUsername_def
      updateUser_def try_catch_def await_def split: outcome.splits option.splits)

lemma status_500_userLogin:
  assumes "(500, b) \<in> set (responses (userLogin S body))"
  shows "\<exists>x. svc_loginUser S
           [(''username'', lookup body ''username''), (''password'', lookup body ''password'')]
           = Throws x"
proof (cases "isUserBodyValid body")
  case True
  with assms show ?thesis
    by (auto simp: userLogin_valid split: outcome.splits response.splits)
next
  case False
  with assms show ?thesis
    by (simp add: userLogin_invalid)
qed

lemma status_500_resetPassword:
  assumes "(500, b) \<in> set (responses (resetPassword S body))"
  shows "\<exists>x. svc_updateUser S (lookup body ''username'') [(''password'', lookup body ''password'')]
           = Throws x"
proof (cases "isUserBodyValid body")
  case True
  with assms show ?thesis
    by (auto simp: resetPassword_valid split: outcome.splits response.splits)
next
  case False
  with assms show ?thesis
    by (simp add: resetPassword_invalid)
qed

lemma status_500_getUser:
  assumes "(500, b) \<in> set (responses (getUser S name))"
  shows "\<exists>x. svc_getUserByUsername S (JStr name) = Throws x"
proof (cases "name = []")
  case True
  with assms show ?thesis
    by (simp add: getUser_invalid)
next
  case False
  with assms show ?thesis
    by (auto simp: getUser_valid split: outcome.splits response.splits)
qed

lemma status_500_deleteUser:
  assumes "(500, b) \<in> set (responses (deleteUser S name))"
  shows "\<exists>x. svc_deleteUserByUsername S (JStr name) = Throws x"
proof (cases "name = []")
  case True
  with assms show ?thesis
    by (simp add: deleteUser_invalid)
next
  case False
  with assms show ?thesis
    by (auto simp: deleteUser_valid split: outcome.splits response.splits)
qed

lemma real_service_fields:
  "svc_saveUser (user_service_on M) = saveUser M"
  "svc_getUserByUsername (user_service_on M) = getUserByUsername M"
  "svc_loginUser (user_service_on M) = loginUser M"
  "svc_deleteUserByUsername (user_service_on M) = deleteUserByUsername M"
  "svc_updateUser (user_service_on M) = updateUser M"
  by (simp_all add: user_service_on_def)

text \<open>
  C9. When the storage call throws inside the real service, the service catches it and
  the controller answers like for any other error result: 401 for login, 404 for
  get-user, delete-user and reset-password. A handler answers 500 only when the service
  function itself throws, which the real services never do.
\<close>

theorem storage_failure_is_not_500:
  "(isUserBodyValid body \<and> findOne M [(''username'', lookup body ''username'')] = Throws e \<longrightarrow>
      responses (userLogin (user_service_on M) body)
        = [(401, error_body (''Error logging in user saving user: '' @ e))]) \<and>
   (name \<noteq> [] \<and> findOne M [(''username'', JStr name)] = Throws e \<longrightarrow>
      responses (getUser (user_service_on M) name)
        = [(404, error_body (''Error when saving user: '' @ e))]) \<and>
   (name \<noteq> [] \<and> findOneAndDelete M [(''username'', JStr name)] = Throws e \<longrightarrow>
      responses (deleteUser (user_service_on M) name)
        = [(404, error_body (''Error deleting user: '' @ e))]) \<and>
   (isUserBodyValid body \<and>
      findOneAndUpdate M [(''username'', lookup body ''username'')]
        [(''password'', lookup body ''password'')] = Throws e \<longrightarrow>
      responses (resetPassword (user_service_on M) body)
        = [(404, error_body (''Error updating user: '' @ e))]) \<and>
   ((500, b) \<in> set (responses (userLogin S body)) \<longrightarrow>
      (\<exists>x. svc_loginUser S
         [(''username'', lookup body ''username''), (''password'', lookup body ''password'')]
         = Throws x)) \<and>
   ((500, b) \<in> set (responses (getUser S name)) \<longrightarrow>
      (\<exists>x. svc_getUserByUsername S (JStr name) = Throws x)) \<and>
   ((500, b) \<in> set (responses (deleteUser S name)) \<longrightarrow>
      (\<exists>x. svc_deleteUserByUsername S (JStr name) = Throws x)) \<and>
   ((500, b) \<in> set (responses (resetPassword S body)) \<longrightarrow>
      (\<exists>x. svc_updateUser S (lookup body ''username'') [(''password'', lookup body ''password'')]
         = Throws x)) \<and>
   (500, b) \<notin> set (responses (userLogin (user_service_on M) body)) \<and>
   (500, b) \<notin> set (responses (getUser (user_service_on M) name)) \<and>
   (500, b) \<notin> set (responses (deleteUser (user_service_on M) name)) \<and>
   (500, b) \<notin> set (responses (resetPassword (user_service_on M) body))"
proof -
  have caught:
    "isUserBodyValid body \<and> findOne M [(''username'', lookup body ''username'')] = Throws e \<longrightarrow>
       responses (userLogin (user_service_on M) body)
         = [(401, error_body (''Error logging in user saving user: '' @ e))]"
    "name \<noteq> [] \<and> findOne M [(''username'', JStr name)] = Throws e \<longrightarrow>
       responses (getUser (user_service_on M) name)
         = [(404, error_body (''Error when saving user: '' @ e))]"
    "name \<noteq> [] \<and> findOneAndDelete M [(''username'', JStr name)] = Throws e \<longrightarrow>
       responses (deleteUser (user_service_on M) name)
         = [(404, error_body (''Error deleting user: '' @ e))]"
    "isUserBodyValid body \<and>
       findOneAndUpdate M [(''username'', lookup body ''username'')]
         [(''password'', lookup body ''password'')] = Throws e \<longrightarrow>
       responses (resetPassword (user_service_on M) body)
         = [(404, error_body (''Error updating user: '' @ e))]"
    by (simp_all add: user_handlers_valid real_service_fields services_caught lookup_def)
  have only_thrown:
    "(500, b) \<in> set (responses (userLogin S body)) \<longrightarrow>
       (\<exists>x. svc_loginUser S
          [(''username'', lookup body ''username''), (''password'', lookup body ''password'')]
          = Throws x)"
    "(500, b) \<in> set (responses (getUser S name)) \<longrightarrow>
       (\<exists>x. svc_getUserByUsername S (JStr name) = Throws x)"
    "(500, b) \<in> set (responses (deleteUser S name)) \<longrightarrow>
       (\<exists>x. svc_deleteUserByUsername S (JStr name) = Throws x)"
    "(500, b) \<in> set (responses (resetPassword S body)) \<longrightarrow>
       (\<exists>x. svc_updateUser S (lookup body ''username'') [(''password'', lookup body ''password'')]
          = Throws x)"
    for S
    using status_500_userLogin status_500_getUser status_500_deleteUser status_500_resetPassword
    by blast+
  have never:
    "(500, b) \<notin> set (responses (userLogin (user_service_on M) body))"
    "(500, b) \<notin> set (responses (getUser (user_service_on M) name))"
    "(500, b) \<notin> set (responses (deleteUser (user_service_on M) name))"
    "(500, b) \<notin> set (responses (resetPassword (user_service_on M) body))"
    using only_thrown [of "user_service_on M"]
    by (simp_all add: real_service_fields services_return)
  from caught only_thrown [of S] never show ?thesis
    by (intro conjI)
qed


theorem storage_failure_is_not_500_witness:
  "isUserBodyValid mockReqBody \<and>
   findOne (stub_UserModel (Throws ''DB error'') (Throws ''DB error''))
     [(''username'', lookup mockReqBody ''username'')] = Throws ''DB error'' \<and>
   responses (userLogin (user_service_on (stub_UserModel (Throws ''DB error'')
       (Throws ''DB error''))) mockReqBody)
     = [(401, error_body ''Error logging in user saving user: DB error'')] \<and>
   responses (getUser (user_service_on (stub_UserModel (Throws ''DB error'')
       (Throws ''DB error''))) ''sana'')
     = [(404, error_body ''Error when saving user: DB error'')] \<and>
   responses (deleteUser (user_service_on (stub_UserModel (Throws ''DB error'')
       (Throws ''DB error''))) ''sana'')
     = [(404, error_body ''Error deleting user: DB error'')] \<and>
   responses (resetPassword (user_service_on (stub_UserModel (Throws ''DB error'')
       (Throws ''DB error''))) mockReqBody)
     = [(404, error_body ''Error updating user: DB error'')] \<and>
   (500, error_body ''Server error.'')
     \<in> set (responses (userLogin (spy_user_service (Throws ''Unexpected error'')) mockReqBody)) \<and>
   (\<exists>x. svc_loginUser (spy_user_service (Throws ''Unexpected error''))
      [(''username'', lookup mockReqBody ''username''),
       (''password'', lookup mockReqBody ''password'')] = Throws x) \<and>
   (500, error_body ''Server error.'')
     \<notin> set (responses (userLogin (user_service_on (stub_UserModel (Throws ''DB error'')
         (Throws ''DB error''))) mockReqBody))"
proof -
  let ?M = "stub_UserModel (Throws ''DB error'') (Throws ''DB error'')"
  let ?S = "spy_user_service (Throws ''Unexpected error'')"
  note valid = isUserBodyValid_mockReqBody
  have name: "''sana'' \<noteq> []"
    by simp
  have thrown:
    "findOne ?M q = Throws ''DB error''"
    "findOneAndDelete ?M q = Throws ''DB error''"
    "findOneAndUpdate ?M q updates = Throws ''DB error''"
    for q updates
    by (simp_all add: stub_UserModel_def)
  note failing =
    storage_failure_is_not_500
      [where body = mockReqBody and name = "''sana''" and M = ?M and e = "''DB error''"
        and S = ?S and b = "error_body ''Server error.''"]
  have statuses:
    "responses (userLogin (user_service_on ?M) mockReqBody)
       = [(401, error_body ''Error logging in user saving user: DB error'')]"
    "responses (getUser (user_service_on ?M) ''sana'')
       = [(404, error_body ''Error when saving user: DB error'')]"
    "responses (deleteUser (user_service_on ?M) ''sana'')
       = [(404, error_body ''Error deleting user: DB error'')]"
    "responses (resetPassword (user_service_on ?M) mockReqBody)
       = [(404, error_body ''Error updating user: DB error'')]"
    using failing valid name by (simp_all add: thrown)
  have server_error: "(500, error_body ''Server error.'')
      \<in> set (responses (userLogin ?S mockReqBody))"
    using valid by (simp add: userLogin_valid spy_user_service_def)
  from failing server_error
  have service_threw: "\<exists>x. svc_loginUser ?S
      [(''username'', lookup mockReqBody ''username''),
       (''password'', lookup mockReqBody ''password'')] = Throws x"
    by blast
  from failing
  have never: "(500, error_body ''Server error.'')
      \<notin> set (responses (userLogin (user_service_on ?M) mockReqBody))"
    by blast
  from valid thrown(1) statuses server_error service_threw never show ?thesis
    by (intro conjI)
qed

lemma lookup_Cons: "lookup ((k, v) # fs) k' = (if k' = k then v else lookup fs k')"
  by (simp add: lookup_def)

lemma lookup_empty_string_invalid:
  assumes "f = ''username'' \<or> f = ''password''" and "lookup body f = JStr []"
  shows "\<not> isUserBodyValid body" and "\<not> isUserBodyValid (omit f body)"
  using assms by (auto simp: isUserBodyValid_def lookup_omit_same)

lemma message_empty_string_invalid:
  assumes "f = ''msg'' \<or> f = ''msgFrom''"
    and "lookup body ''messageToAdd'' = JObj m" and "lookup m f = JStr []"
  shows "\<not> isRequestValid body"
    and "\<not> isRequestValid ((''messageToAdd'', JObj (omit f m)) # body)"
  using assms by (auto simp: isRequestValid_def Let_def lookup_Cons lookup_omit_same)

text \<open>
  C10. A signup, login or reset-password request whose \<open>username\<close> or \<open>password\<close> is the
  empty string, and an add-message request whose \<open>msg\<close> or \<open>msgFrom\<close> is the empty string,
  runs exactly like the request without that field: the whole run is the 400 response of
  the validation, so no service function is called.
\<close>

theorem empty_string_is_missing:
  "((f = ''username'' \<or> f = ''password'') \<and> lookup body f = JStr [] \<longrightarrow>
      createUser S now body
        = [Respond 400 (error_body ''Username and password are required.'')] \<and>
      createUser S now (omit f body) = createUser S now body \<and>
      userLogin S body
        = [Respond 400 (error_body ''Username and password are required.'')] \<and>
      userLogin S (omit f body) = userLogin S body \<and>
      resetPassword S body
        = [Respond 400 (error_body ''Username and new password are required.'')] \<and>
      resetPassword S (omit f body) = resetPassword S body) \<and>
   ((g = ''msg'' \<or> g = ''msgFrom'') \<and> lookup body ''messageToAdd'' = JObj m \<and>
      lookup m g = JStr [] \<longrightarrow>
      addMessageRoute T body = [Respond 400 (error_body ''Invalid message body'')] \<and>
      addMessageRoute T ((''messageToAdd'', JObj (omit g m)) # body) = addMessageRoute T body)"
proof (intro conjI impI; elim conjE)
  assume field: "f = ''username'' \<or> f = ''password''" and empty: "lookup body f = JStr []"
  note invalid = lookup_empty_string_invalid [OF field empty]
  show "createUser S now body
      = [Respond 400 (error_body ''Username and password are required.'')]"
    "createUser S now (omit f body) = createUser S now body"
    "userLogin S body = [Respond 400 (error_body ''Username and password are required.'')]"
    "userLogin S (omit f body) = userLogin S body"
    "resetPassword S body
      = [Respond 400 (error_body ''Username and new password are required.'')]"
    "resetPassword S (omit f body) = resetPassword S body"
    using invalid by (simp_all add: createUser_invalid userLogin_invalid resetPassword_invalid)
next
  assume field: "g = ''msg'' \<or> g = ''msgFrom''"
    and message: "lookup body ''messageToAdd'' = JObj m" and empty: "lookup m g = JStr []"
  note invalid = message_empty_string_invalid [OF field message empty]
  show "addMessageRoute T body = [Respond 400 (error_body ''Invalid message body'')]"
    "addMessageRoute T ((''messageToAdd'', JObj (omit g m)) # body) = addMessageRoute T body"
    using invalid by (simp_all add: addMessageRoute_invalid)
qed


theorem empty_string_is_missing_witness:
  "lookup [(''username'', JStr []), (''password'', JStr ''sanaPassword'')] ''username''
     = JStr [] \<and>
   createUser (spy_user_service (Returns (Ok mockSafeUser))) 0
     [(''username'', JStr []), (''password'', JStr ''sanaPassword'')]
     = [Respond 400 (error_body ''Username and password are required.'')] \<and>
   userLogin (spy_user_service (Returns (Ok mockSafeUser)))
     [(''username'', JStr []), (''password'', JStr ''sanaPassword'')]
     = [Respond 400 (error_body ''Username and password are required.'')] \<and>
   resetPassword (spy_user_service (Returns (Ok mockSafeUser)))
     [(''username'', JStr []), (''password'', JStr ''sanaPassword'')]
     = [Respond 400 (error_body ''Username and new password are required.'')] \<and>
   createUser (spy_user_service (Returns (Ok mockSafeUser))) 0
     (omit ''username'' [(''username'', JStr []), (''password'', JStr ''sanaPassword'')])
     = createUser (spy_user_service (Returns (Ok mockSafeUser))) 0
         [(''username'', JStr []), (''password'', JStr ''sanaPassword'')] \<and>
   lookup [(''messageToAdd'', JObj [(''msg'', JStr ''Hello''), (''msgFrom'', JStr []),
       (''msgDateTime'', JStr ''2024-06-04T00:00:00.000Z'')])] ''messageToAdd''
     = JObj [(''msg'', JStr ''Hello''), (''msgFrom'', JStr []),
         (''msgDateTime'', JStr ''2024-06-04T00:00:00.000Z'')] \<and>
   lookup [(''msg'', JStr ''Hello''), (''msgFrom'', JStr []),
       (''msgDateTime'', JStr ''2024-06-04T00:00:00.000Z'')] ''msgFrom'' = JStr [] \<and>
   addMessageRoute (spy_message_service (Returns (Ok message1)))
     [(''messageToAdd'', JObj [(''msg'', JStr ''Hello''), (''msgFrom'', JStr []),
       (''msgDateTime'', JStr ''2024-06-04T00:00:00.000Z'')])]
     = [Respond 400 (error_body ''Invalid message body'')]"
proof -
  let ?S = "spy_user_service (Returns (Ok mockSafeUser))"
  let ?T = "spy_message_service (Returns (Ok message1))"
  let ?body = "[(''username'', JStr []), (''password'', JStr ''sanaPassword'')]"
  let ?m = "[(''msg'', JStr ''Hello''), (''msgFrom'', JStr []),
       (''msgDateTime'', JStr ''2024-06-04T00:00:00.000Z'')]"
  let ?request = "[(''messageToAdd'', JObj ?m)]"
  have empty: "lookup ?body ''username'' = JStr []"
    by (simp add: lookup_def)
  have message: "lookup ?request ''messageToAdd'' = JObj ?m"
    by (simp add: lookup_def)
  have empty_from: "lookup ?m ''msgFrom'' = JStr []"
    by (simp add: lookup_def)
  note on_user =
    empty_string_is_missing
      [where f = "''username''" and body = ?body and S = ?S and now = 0]
  note on_message =
    empty_string_is_missing
      [where g = "''msgFrom''" and body = ?request and m = ?m and T = ?T]
  from on_user empty have user:
    "createUser ?S 0 ?body = [Respond 400 (error_body ''Username and password are required.'')]"
    "userLogin ?S ?body = [Respond 400 (error_body ''Username and password are required.'')]"
    "resetPassword ?S ?body
      = [Respond 400 (error_body ''Username and new password are required.'')]"
    "createUser ?S 0 (omit ''username'' ?body) = createUser ?S 0 ?body"
    by blast+
  from on_message message empty_from
  have rejected: "addMessageRoute ?T ?request = [Respond 400 (error_body ''Invalid message body'')]"
    by blast
  from empty user message empty_from rejected show ?thesis
    by (intro conjI)
qed

end
